theory Spec2Isabelle
  imports Main "HOL-Library.Word"
begin

unbundle bit_operations_syntax

section \<open>The merkleized Optional container of EIP-6475 (optional.py)\<close>

text \<open>
  The development embeds \<^verbatim>\<open>assets/eip-6475/optional.py\<close>. The class \<^verbatim>\<open>Optional\<close>
  is a view over an immutable binary tree: an instance is its backing node, every method
  takes the backing and returns the new one. Exceptions are values of \<open>pyerr\<close>, a result
  is \<open>pyerr + 'a\<close> with \<open>Inl\<close> for the exception.

  The node abstraction, the generalized-index helpers and the element type are supplied
  by the library the file imports; the library is not part of the repository, so its
  operations are modelled from the interface the specification gives for them.
\<close>

subsection \<open>Trees, roots and exceptions\<close>

type_synonym root = "256 word"
type_synonym byte = "8 word"
type_synonym gindex = int

text \<open>A 32-byte root is read as the little-endian number it encodes.\<close>

datatype node = RootNode root | PairNode node node

datatype pyerr =
    NameError
  | KeyError
  | TypeError
  | AssertionError
  | NavigationError
  | ZeroDivisionError
  | PyException
  | ElemError

text \<open>
  The hash that combines two roots is the library's; every definition that reads the root
  of a pair takes it as the parameter \<open>H\<close>.
\<close>

fun merkle_root :: "(root \<Rightarrow> root \<Rightarrow> root) \<Rightarrow> node \<Rightarrow> root" where
  "merkle_root H (RootNode r) = r"
| "merkle_root H (PairNode l r) = H (merkle_root H l) (merkle_root H r)"

subsection \<open>The node abstraction\<close>

text \<open>Modelled from the spec: \<^verbatim>\<open>get_depth\<close> of the tree library, the depth-from-limit
  computation (\<open>contents_depth = depth(limit)\<close>): 0 for at most one element, otherwise the
  bit length of \<open>elem_count - 1\<close>.\<close>

fun bit_length :: "nat \<Rightarrow> nat" where
  "bit_length n = (if n = 0 then 0 else Suc (bit_length (n div 2)))"

declare bit_length.simps [simp del]

definition get_depth :: "int \<Rightarrow> nat" where
  "get_depth elem_count = (if elem_count \<le> 1 then 0 else bit_length (nat (elem_count - 1)))"

text \<open>Modelled from the spec: \<^verbatim>\<open>to_gindex\<close> of the tree library, the generalized index of
  position \<open>index\<close> in a tree of the given depth: the anchor bit \<open>1 << depth\<close> followed by the
  bits of the position; a position beyond the anchor is refused.\<close>

definition to_gindex :: "int \<Rightarrow> nat \<Rightarrow> pyerr + gindex" where
  "to_gindex index depth =
     (let anchor = push_bit depth (1::int)
      in if index \<ge> anchor then Inl PyException else Inr (anchor OR index))"

text \<open>Modelled from the spec: \<^verbatim>\<open>zero_node\<close> of the tree library (\<open>zeroSubtree(depth)\<close>),
  the summary node of a zero-filled subtree; at depth 0 it is the leaf of 32 zero bytes.\<close>

fun zero_hash :: "(root \<Rightarrow> root \<Rightarrow> root) \<Rightarrow> nat \<Rightarrow> root" where
  "zero_hash H 0 = 0"
| "zero_hash H (Suc d) = H (zero_hash H d) (zero_hash H d)"

definition zero_node :: "(root \<Rightarrow> root \<Rightarrow> root) \<Rightarrow> nat \<Rightarrow> node" where
  "zero_node H depth = RootNode (zero_hash H depth)"

text \<open>Modelled from the spec: \<^verbatim>\<open>get_left\<close>, \<^verbatim>\<open>get_right\<close> and \<^verbatim>\<open>rebind_right\<close> of the
  node abstraction (\<open>getLeft()/getRight()\<close>, \<open>rebindRight(newRightChild)\<close>); a leaf has no
  children and the navigation fails.\<close>

fun get_left :: "node \<Rightarrow> pyerr + node" where
  "get_left (PairNode l r) = Inr l"
| "get_left (RootNode x) = Inl NavigationError"

fun get_right :: "node \<Rightarrow> pyerr + node" where
  "get_right (PairNode l r) = Inr r"
| "get_right (RootNode x) = Inl NavigationError"

fun rebind_right :: "node \<Rightarrow> node \<Rightarrow> pyerr + node" where
  "rebind_right (PairNode l r) v = Inr (PairNode l v)"
| "rebind_right (RootNode x) v = Inl NavigationError"

text \<open>Modelled from the spec: the path a generalized index encodes (glossary: from the
  most significant set bit, each further bit is a turn, 0 left and 1 right).\<close>

function gindex_path :: "gindex \<Rightarrow> bool list" where
  "gindex_path t = (if t \<le> 1 then [] else gindex_path (t div 2) @ [t AND 1 \<noteq> 0])"
  by pat_completeness auto
termination
  by (relation "measure nat") auto

text \<open>Modelled from the spec: \<^verbatim>\<open>getter\<close> of the node abstraction, navigation to the
  subtree at a generalized index; an index below 1 and a turn below a leaf fail.\<close>

fun get_path :: "node \<Rightarrow> bool list \<Rightarrow> pyerr + node" where
  "get_path n [] = Inr n"
| "get_path (PairNode l r) (b # bs) = get_path (if b then r else l) bs"
| "get_path (RootNode x) (b # bs) = Inl NavigationError"

definition getter :: "node \<Rightarrow> gindex \<Rightarrow> pyerr + node" where
  "getter n target = (if target < 1 then Inl NavigationError else get_path n (gindex_path target))"

text \<open>Modelled from the spec: \<^verbatim>\<open>setter\<close> of the node abstraction
  (\<open>pathReplace(generalizedIndex, newSubtree, expand)\<close>), the copy-on-write replacement of
  the subtree at a generalized index; with \<open>expand\<close> a leaf on the path is grown into a
  pair of zero subtrees, without it the replacement below a leaf fails.\<close>

fun set_path :: "(root \<Rightarrow> root \<Rightarrow> root) \<Rightarrow> bool \<Rightarrow> node \<Rightarrow> bool list \<Rightarrow> node \<Rightarrow> pyerr + node" where
  "set_path H expand n [] v = Inr v"
| "set_path H expand (PairNode l r) (b # bs) v =
     (if b then (case set_path H expand r bs v of Inl e \<Rightarrow> Inl e | Inr r' \<Rightarrow> Inr (PairNode l r'))
      else (case set_path H expand l bs v of Inl e \<Rightarrow> Inl e | Inr l' \<Rightarrow> Inr (PairNode l' r)))"
| "set_path H expand (RootNode x) (b # bs) v =
     (if expand then
        (let child = zero_node H (length bs)
         in case set_path H expand child bs v of
              Inl e \<Rightarrow> Inl e
            | Inr c' \<Rightarrow> Inr (if b then PairNode child c' else PairNode c' child))
      else Inl NavigationError)"

definition setter :: "(root \<Rightarrow> root \<Rightarrow> root) \<Rightarrow> node \<Rightarrow> gindex \<Rightarrow> bool \<Rightarrow> node \<Rightarrow> pyerr + node" where
  "setter H n target expand v =
     (if target < 1 then Inl NavigationError else set_path H expand n (gindex_path target) v)"

text \<open>Modelled from the spec: \<^verbatim>\<open>summarize_into\<close> of the node abstraction
  (\<open>summarizeZero(generalizedIndex)\<close>): the subtree at the index is replaced by the single
  summary node that carries its root.\<close>

definition summarize_into :: "(root \<Rightarrow> root \<Rightarrow> root) \<Rightarrow> node \<Rightarrow> gindex \<Rightarrow> pyerr + node" where
  "summarize_into H n target =
     (case getter n target of
        Inl e \<Rightarrow> Inl e
      | Inr sub \<Rightarrow> setter H n target False (RootNode (merkle_root H sub)))"

text \<open>Modelled from the spec: \<^verbatim>\<open>subtree_fill_to_contents\<close> of the tree library, the
  contents subtree of the given depth over a list of bottom nodes: no node gives the zero
  subtree, at depth 0 the single node is the subtree, more nodes than positions fail.\<close>

fun subtree_fill_to_contents :: "(root \<Rightarrow> root \<Rightarrow> root) \<Rightarrow> node list \<Rightarrow> nat \<Rightarrow> pyerr + node" where
  "subtree_fill_to_contents H nodes 0 =
     (case nodes of [] \<Rightarrow> Inr (zero_node H 0) | [n] \<Rightarrow> Inr n | _ \<Rightarrow> Inl PyException)"
| "subtree_fill_to_contents H nodes (Suc d) =
     (if nodes = [] then Inr (zero_node H (Suc d))
      else if length nodes > 2 ^ Suc d then Inl PyException
      else if length nodes \<le> 2 ^ d then
        (case subtree_fill_to_contents H nodes d of
           Inl e \<Rightarrow> Inl e
         | Inr l \<Rightarrow> Inr (PairNode l (zero_node H d)))
      else
        (case subtree_fill_to_contents H (take (2 ^ d) nodes) d of
           Inl e \<Rightarrow> Inl e
         | Inr l \<Rightarrow>
             (case subtree_fill_to_contents H (drop (2 ^ d) nodes) d of
                Inl e \<Rightarrow> Inl e
              | Inr r \<Rightarrow> Inr (PairNode l r))))"

text \<open>Modelled from the spec: the backing of \<^verbatim>\<open>uint256(n)\<close> and its decoding (the length
  child is "a fixed-width unsigned integer leaf"): the leaf whose 32 bytes encode \<open>n\<close>, read
  back from the root of the node.\<close>

definition uint256_get_backing :: "int \<Rightarrow> node" where
  "uint256_get_backing n = RootNode (word_of_int n)"

definition uint256_view_from_backing :: "(root \<Rightarrow> root \<Rightarrow> root) \<Rightarrow> node \<Rightarrow> int" where
  "uint256_view_from_backing H n = uint (merkle_root H n)"

subsection \<open>Sequencing of fallible steps\<close>

definition ebind :: "'e + 'a \<Rightarrow> ('a \<Rightarrow> 'e + 'b) \<Rightarrow> 'e + 'b" where
  "ebind m f = (case m of Inl e \<Rightarrow> Inl e | Inr x \<Rightarrow> f x)"

text \<open>A computation that may also fail to return: \<open>None\<close> is a loop that never ends.\<close>

definition rbind :: "('e + 'a) option \<Rightarrow> ('a \<Rightarrow> ('e + 'b) option) \<Rightarrow> ('e + 'b) option" where
  "rbind m f = (case m of None \<Rightarrow> None | Some (Inl e) \<Rightarrow> Some (Inl e) | Some (Inr x) \<Rightarrow> f x)"

definition py_floordiv :: "int \<Rightarrow> int \<Rightarrow> pyerr + int" where
  "py_floordiv a b = (if b = 0 then Inl ZeroDivisionError else Inr (a div b))"

definition py_mod :: "int \<Rightarrow> int \<Rightarrow> pyerr + int" where
  "py_mod a b = (if b = 0 then Inl ZeroDivisionError else Inr (a mod b))"

subsection \<open>Values, keys and the element type\<close>

text \<open>
  \<open>'v\<close> is the type of the library's view objects, \<open>'r\<close> the type of every other Python
  value. What the code passes to the constructor and to \<^verbatim>\<open>set\<close> is either a view or a raw
  value that has to be coerced.
\<close>

datatype ('v, 'r) pyvalue = IsView 'v | Raw 'r

text \<open>A navigation key is typed \<^verbatim>\<open>Any\<close>: the code compares it with a string and with
  integers.\<close>

datatype key = IntKey int | StrKey string

definition key_ge :: "key \<Rightarrow> int \<Rightarrow> pyerr + bool" where
  "key_ge k n = (case k of IntKey i \<Rightarrow> Inr (i \<ge> n) | StrKey s \<Rightarrow> Inl TypeError)"

definition key_lt :: "key \<Rightarrow> int \<Rightarrow> pyerr + bool" where
  "key_lt k n = (case k of IntKey i \<Rightarrow> Inr (i < n) | StrKey s \<Rightarrow> Inl TypeError)"

text \<open>Modelled from the spec: the element type descriptor, "a capability set, not a
  concrete entity": the class \<^verbatim>\<open>element_type\<close> of the library with the class methods and
  the methods of its views that optional.py and the inherited view code call on it.
  \<open>isinstance_elem v\<close> is \<^verbatim>\<open>isinstance(v, element_type)\<close>, \<open>isinstance_BasicView\<close> is
  the value of \<^verbatim>\<open>isinstance(element_type, BasicView)\<close> at line 37, \<open>issubclass_BasicView\<close>
  that of \<^verbatim>\<open>issubclass(element_type, BasicView)\<close>, \<open>view_is_basic v\<close> that of
  \<^verbatim>\<open>isinstance(v, BasicView)\<close>. A stream is the list of its bytes: \<open>serialize\<close> appends
  to it and returns the count, \<open>deserialize\<close> reads from its front within the scope.\<close>

record ('v, 'r) view_cls =
  isinstance_elem :: "'v \<Rightarrow> bool"
  isinstance_BasicView :: bool
  issubclass_BasicView :: bool
  view_is_basic :: "'v \<Rightarrow> bool"
  min_byte_length :: nat
  max_byte_length :: nat
  is_fixed_byte_length :: bool
  type_byte_length :: "pyerr + nat"
  coerce_view :: "('v, 'r) pyvalue \<Rightarrow> pyerr + 'v"
  view_from_backing :: "node \<Rightarrow> pyerr + 'v"
  basic_view_from_backing :: "node \<Rightarrow> nat \<Rightarrow> pyerr + 'v"
  pack_views :: "'v list \<Rightarrow> node list"
  get_backing :: "'v \<Rightarrow> node"
  backing_from_base :: "'v \<Rightarrow> node \<Rightarrow> nat \<Rightarrow> node"
  value_byte_length :: "'v \<Rightarrow> nat"
  serialize :: "'v \<Rightarrow> byte list \<Rightarrow> nat \<times> byte list"
  deserialize :: "byte list \<Rightarrow> int \<Rightarrow> pyerr + ('v \<times> byte list)"

subsection \<open>The specialization \<^verbatim>\<open>Optional[element_type]\<close>\<close>

text \<open>The class \<^verbatim>\<open>SpecialOptionView\<close> that \<^verbatim>\<open>__class_getitem__\<close> builds: its four class
  methods return the values captured at specialization time.\<close>

record ('v, 'r) optional_cls =
  is_packed :: bool
  contents_depth :: nat
  element_cls :: "('v, 'r) view_cls"
  limit :: int

definition class_getitem :: "('v, 'r) view_cls \<Rightarrow> pyerr + ('v, 'r) optional_cls" where
  "class_getitem element_type =
     (if min_byte_length element_type = 0 then Inl PyException
      else
        (let limit = 1;
             contents_depth = get_depth limit;
             packed = isinstance_BasicView element_type
         in Inr \<lparr>is_packed = packed, contents_depth = contents_depth,
                 element_cls = element_type, limit = limit\<rparr>))"

definition tree_depth :: "('v, 'r) optional_cls \<Rightarrow> nat" where
  "tree_depth cls = contents_depth cls + 1"

subsection \<open>Names that optional.py uses and never binds\<close>

text \<open>
  Line 5 imports \<^verbatim>\<open>Gindex, Node, PairNode, get_depth, subtree_fill_to_contents, zero_node\<close>
  from the tree library and nothing else; no other statement of the module binds
  \<^verbatim>\<open>to_gindex\<close>, \<^verbatim>\<open>RIGHT_GINDEX\<close> or \<^verbatim>\<open>el\<close>. Evaluating one of these names inside a
  method of the module raises \<^verbatim>\<open>NameError\<close>. (The library's own methods are defined in
  the library's modules, where \<^verbatim>\<open>to_gindex\<close> is bound.)
\<close>

definition global_to_gindex :: "int \<Rightarrow> nat \<Rightarrow> pyerr + gindex" where
  "global_to_gindex index depth = Inl NameError"

definition global_RIGHT_GINDEX :: "pyerr + gindex" where
  "global_RIGHT_GINDEX = Inl NameError"

definition global_el :: "pyerr + 'v" where
  "global_el = Inl NameError"

subsection \<open>The inherited view methods\<close>

text \<open>Modelled from the spec: \<^verbatim>\<open>views_into_chunks\<close> of the inherited view class, the
  bottom nodes of a list of element views: packed into chunks when the class is packed
  (only basic element types pack), otherwise the backing of each view.\<close>

definition views_into_chunks :: "('v, 'r) optional_cls \<Rightarrow> 'v list \<Rightarrow> pyerr + node list" where
  "views_into_chunks cls views =
     (let elem_type = element_cls cls
      in if is_packed cls then
           (if issubclass_BasicView elem_type then Inr (pack_views elem_type views)
            else Inl PyException)
         else Inr (map (get_backing elem_type) views))"

text \<open>An argument that is not an instance of the element type is coerced.\<close>

definition as_elem :: "('v, 'r) view_cls \<Rightarrow> ('v, 'r) pyvalue \<Rightarrow> pyerr + 'v" where
  "as_elem elem_type v =
     (case v of
        IsView x \<Rightarrow> if isinstance_elem elem_type x then Inr x else coerce_view elem_type v
      | Raw r \<Rightarrow> coerce_view elem_type v)"

text \<open>Modelled from the spec: \<^verbatim>\<open>get(i)\<close> of the inherited view class, "the single value
  at contents-subtree position 0, decoded through T's decoding rules (packed or unpacked
  per the specialization's packed flag)": the node at the position's generalized index,
  decoded as a view; a packed class reads the element out of its chunk.\<close>

definition SubtreeView_get :: "('v, 'r) optional_cls \<Rightarrow> node \<Rightarrow> int \<Rightarrow> pyerr + 'v" where
  "SubtreeView_get cls self i =
     (let elem_type = element_cls cls
      in if is_packed cls then
           ebind (type_byte_length elem_type) (\<lambda>sz.
           ebind (py_floordiv 32 (int sz)) (\<lambda>elems_per_chunk.
           ebind (py_floordiv i elems_per_chunk) (\<lambda>chunk_i.
           ebind (to_gindex chunk_i (tree_depth cls)) (\<lambda>target.
           ebind (getter self target) (\<lambda>chunk.
           ebind (py_mod i elems_per_chunk) (\<lambda>j.
           basic_view_from_backing elem_type chunk (nat j)))))))
         else
           ebind (to_gindex i (tree_depth cls)) (\<lambda>target.
           ebind (getter self target) (\<lambda>n.
           view_from_backing elem_type n)))"

text \<open>Modelled from the spec: \<^verbatim>\<open>set(i, v)\<close> of the inherited view class, the same-slot
  overwrite: "coerce v to T if needed and replace contents position 0's value in place
  (structurally, via path-scoped replacement)"; a packed class rewrites the element
  inside its chunk. The result is the new backing.\<close>

definition SubtreeView_set ::
  "(root \<Rightarrow> root \<Rightarrow> root) \<Rightarrow> ('v, 'r) optional_cls \<Rightarrow> node \<Rightarrow> int \<Rightarrow> ('v, 'r) pyvalue \<Rightarrow> pyerr + node" where
  "SubtreeView_set H cls self i v =
     (let elem_type = element_cls cls
      in ebind (as_elem elem_type v) (\<lambda>v.
         if is_packed cls then
           (if view_is_basic elem_type v then
              ebind (type_byte_length elem_type) (\<lambda>sz.
              ebind (py_floordiv 32 (int sz)) (\<lambda>elems_per_chunk.
              ebind (py_floordiv i elems_per_chunk) (\<lambda>chunk_i.
              ebind (to_gindex chunk_i (tree_depth cls)) (\<lambda>target.
              ebind (getter self target) (\<lambda>chunk.
              ebind (py_mod i elems_per_chunk) (\<lambda>j.
              setter H self target False (backing_from_base elem_type v chunk (nat j))))))))
            else Inl PyException)
         else
           ebind (to_gindex i (tree_depth cls)) (\<lambda>target.
           setter H self target False (get_backing elem_type v))))"

text \<open>Modelled from the spec: \<^verbatim>\<open>navigate_type\<close> and \<^verbatim>\<open>key_to_static_gindex\<close> of the
  inherited view class ("normal slot navigation"): a negative key is out of range, any
  other key names a slot of the element type, at the generalized index of its chunk.\<close>

definition MonoSubtreeView_navigate_type :: "('v, 'r) optional_cls \<Rightarrow> key \<Rightarrow> pyerr + ('v, 'r) view_cls" where
  "MonoSubtreeView_navigate_type cls k =
     ebind (key_lt k 0) (\<lambda>neg. if neg then Inl KeyError else Inr (element_cls cls))"

definition MonoSubtreeView_key_to_static_gindex :: "('v, 'r) optional_cls \<Rightarrow> key \<Rightarrow> pyerr + gindex" where
  "MonoSubtreeView_key_to_static_gindex cls k =
     (let depth = tree_depth cls
      in ebind (key_lt k 0) (\<lambda>neg.
         if neg then Inl KeyError
         else (case k of
                 StrKey s \<Rightarrow> Inl TypeError
               | IntKey i \<Rightarrow>
                   if is_packed cls then
                     ebind (type_byte_length (element_cls cls)) (\<lambda>sz.
                     ebind (py_floordiv 32 (int sz)) (\<lambda>elems_per_chunk.
                     ebind (py_floordiv i elems_per_chunk) (\<lambda>chunk_i.
                     to_gindex chunk_i depth)))
                   else to_gindex i depth)))"

subsection \<open>The methods of \<^verbatim>\<open>Optional\<close>\<close>

text \<open>
  \<^verbatim>\<open>__new__\<close> (lines 12 to 29): a backing is adopted as it is, and refused together with a
  value; otherwise the value, coerced unless it is a view already, becomes the contents
  subtree, paired with the number of views as the length child.
\<close>

definition Optional_new ::
  "(root \<Rightarrow> root \<Rightarrow> root) \<Rightarrow> ('v, 'r) optional_cls \<Rightarrow> ('v, 'r) pyvalue option \<Rightarrow> node option \<Rightarrow> pyerr + node" where
  "Optional_new H cls val backing =
     (case backing of
        Some b \<Rightarrow> (case val of Some x \<Rightarrow> Inl PyException | None \<Rightarrow> Inr b)
      | None \<Rightarrow>
          (let elem_cls = element_cls cls
           in if limit cls \<noteq> 1 then Inl AssertionError
              else
                ebind (case val of
                         None \<Rightarrow> Inr []
                       | Some (IsView x) \<Rightarrow> Inr [x]
                       | Some (Raw r) \<Rightarrow> ebind (coerce_view elem_cls (Raw r)) (\<lambda>x. Inr [x])) (\<lambda>input_views.
                ebind (views_into_chunks cls input_views) (\<lambda>input_nodes.
                ebind (subtree_fill_to_contents H input_nodes (contents_depth cls)) (\<lambda>contents.
                Inr (PairNode contents (uint256_get_backing (int (length input_views)))))))))"

text \<open>\<^verbatim>\<open>length\<close> (lines 59 to 62): the right child of the backing, read as a uint256.\<close>

definition Optional_length :: "(root \<Rightarrow> root \<Rightarrow> root) \<Rightarrow> node \<Rightarrow> pyerr + int" where
  "Optional_length H self =
     ebind (get_right self) (\<lambda>ll_node. Inr (uint256_view_from_backing H ll_node))"

text \<open>\<^verbatim>\<open>value_byte_length\<close> (lines 64 to 72); the last branch evaluates the name \<^verbatim>\<open>el\<close>.\<close>

definition Optional_value_byte_length ::
  "(root \<Rightarrow> root \<Rightarrow> root) \<Rightarrow> ('v, 'r) optional_cls \<Rightarrow> node \<Rightarrow> pyerr + nat" where
  "Optional_value_byte_length H cls self =
     ebind (Optional_length H self) (\<lambda>n.
       if n = 0 then Inr 0
       else
         (let elem_cls = element_cls cls
          in if is_fixed_byte_length elem_cls then type_byte_length elem_cls
             else ebind global_el (\<lambda>el. Inr (value_byte_length elem_cls el))))"

text \<open>\<^verbatim>\<open>get\<close> (lines 74 to 75).\<close>

definition Optional_get ::
  "(root \<Rightarrow> root \<Rightarrow> root) \<Rightarrow> ('v, 'r) optional_cls \<Rightarrow> node \<Rightarrow> pyerr + 'v option" where
  "Optional_get H cls self =
     ebind (Optional_length H self) (\<lambda>n.
       if n = 0 then Inr None
       else ebind (SubtreeView_get cls self 0) (\<lambda>x. Inr (Some x)))"

text \<open>
  The loop of lines 87 and 88, \<^verbatim>\<open>while (target & 1) == 0 and target != 0b10: target >>= 1\<close>.
  On the index 0 it never ends, so it is a partial function.
\<close>

definition summarize_cond :: "gindex \<Rightarrow> bool" where
  "summarize_cond target \<longleftrightarrow> target AND 1 = 0 \<and> target \<noteq> 2"

partial_function (option) summarize_walk :: "gindex \<Rightarrow> gindex option" where
  "summarize_walk target =
     (if summarize_cond target then summarize_walk (drop_bit 1 target) else Some target)"

text \<open>
  \<^verbatim>\<open>set\<close> (lines 77 to 107). The result is the backing that \<^verbatim>\<open>set_backing\<close> installs, or
  the unchanged backing where the method returns early; an exception leaves the instance
  as it was.
\<close>

definition Optional_set ::
  "(root \<Rightarrow> root \<Rightarrow> root) \<Rightarrow> ('v, 'r) optional_cls \<Rightarrow> ('v, 'r) pyvalue option \<Rightarrow> node \<Rightarrow> (pyerr + node) option" where
  "Optional_set H cls v self =
     (case v of
        None \<Rightarrow>
          rbind (Some (Optional_length H self)) (\<lambda>n.
            if n = 0 then Some (Inr self)
            else
              (let i = 0
               in rbind (Some (global_to_gindex i (tree_depth cls))) (\<lambda>target.
                  rbind (Some (setter H self target False (zero_node H 0))) (\<lambda>next_backing.
                  rbind (if target AND 1 = 0 then
                           rbind (map_option Inr (summarize_walk target)) (\<lambda>target.
                           Some (summarize_into H next_backing target))
                         else Some (Inr next_backing)) (\<lambda>next_backing.
                  Some (rebind_right next_backing (uint256_get_backing i)))))))
      | Some v \<Rightarrow>
          rbind (Some (Optional_length H self)) (\<lambda>n.
            if n = 1 then Some (SubtreeView_set H cls self 0 v)
            else
              (let i = 0; elem_type = element_cls cls
               in rbind (Some (as_elem elem_type v)) (\<lambda>v.
                  rbind (Some (global_to_gindex i (tree_depth cls))) (\<lambda>target.
                  rbind (Some (setter H self target True (get_backing elem_type v))) (\<lambda>next_backing.
                  Some (rebind_right next_backing (uint256_get_backing (i + 1)))))))))"

text \<open>
  The clearing branch of \<^verbatim>\<open>set\<close> once more (lines 81 to 91 and 105 to 107, the path of
  \<^verbatim>\<open>set(None)\<close> on an instance whose length is not 0), with two of its parts left open:
  what the name \<^verbatim>\<open>to_gindex\<close> of line 82 resolves to, and what the loop of lines 87 and 88
  does once its condition holds on entry (the body and all that follows it inside the
  loop). With the module's own resolution of the name and the loop's own body it is the
  branch inside \<open>Optional_set\<close>. A result that is the same for every \<open>loop_body\<close> is reached
  without the body being run.
\<close>

definition clearing_branch ::
  "(int \<Rightarrow> nat \<Rightarrow> pyerr + gindex) \<Rightarrow> (gindex \<Rightarrow> gindex option) \<Rightarrow> (root \<Rightarrow> root \<Rightarrow> root)
     \<Rightarrow> ('v, 'r) optional_cls \<Rightarrow> node \<Rightarrow> (pyerr + node) option" where
  "clearing_branch to_gindex_name loop_body H cls self =
     (let i = 0
      in rbind (Some (to_gindex_name i (tree_depth cls))) (\<lambda>target.
         rbind (Some (setter H self target False (zero_node H 0))) (\<lambda>next_backing.
         rbind (if target AND 1 = 0 then
                  rbind (map_option Inr (if summarize_cond target then loop_body target
                                         else Some target)) (\<lambda>target.
                  Some (summarize_into H next_backing target))
                else Some (Inr next_backing)) (\<lambda>next_backing.
         Some (rebind_right next_backing (uint256_get_backing i))))))"

text \<open>\<^verbatim>\<open>deserialize\<close> (lines 137 to 141) and \<^verbatim>\<open>serialize\<close> (lines 143 to 145). The results
  carry the stream after the call.\<close>

definition Optional_deserialize ::
  "(root \<Rightarrow> root \<Rightarrow> root) \<Rightarrow> ('v, 'r) optional_cls \<Rightarrow> byte list \<Rightarrow> int \<Rightarrow> pyerr + (node \<times> byte list)" where
  "Optional_deserialize H cls stream scope =
     (if scope = 0 then ebind (Optional_new H cls None None) (\<lambda>self. Inr (self, stream))
      else
        ebind (deserialize (element_cls cls) stream scope) (\<lambda>(x, stream').
        ebind (Optional_new H cls (Some (IsView x)) None) (\<lambda>self. Inr (self, stream'))))"

definition Optional_serialize ::
  "(root \<Rightarrow> root \<Rightarrow> root) \<Rightarrow> ('v, 'r) optional_cls \<Rightarrow> node \<Rightarrow> byte list \<Rightarrow> pyerr + (nat \<times> byte list)" where
  "Optional_serialize H cls self stream =
     ebind (Optional_get H cls self) (\<lambda>v.
       case v of None \<Rightarrow> Inr (0, stream) | Some x \<Rightarrow> Inr (serialize (element_cls cls) x stream))"

text \<open>\<^verbatim>\<open>navigate_type\<close> (lines 147 to 151) and \<^verbatim>\<open>key_to_static_gindex\<close> (lines 153 to
  159).\<close>

definition Optional_navigate_type :: "('v, 'r) optional_cls \<Rightarrow> key \<Rightarrow> pyerr + ('v, 'r) view_cls" where
  "Optional_navigate_type cls k =
     ebind (key_ge k (limit cls)) (\<lambda>ge.
       if ge then Inl KeyError else MonoSubtreeView_navigate_type cls k)"

definition Optional_key_to_static_gindex :: "('v, 'r) optional_cls \<Rightarrow> key \<Rightarrow> pyerr + gindex" where
  "Optional_key_to_static_gindex cls k =
     (if k = StrKey ''__is_some__'' then global_RIGHT_GINDEX
      else
        ebind (key_ge k (limit cls)) (\<lambda>ge.
          if ge then Inl KeyError else MonoSubtreeView_key_to_static_gindex cls k))"

text \<open>\<^verbatim>\<open>default_node\<close> (lines 161 to 163).\<close>

definition default_node :: "(root \<Rightarrow> root \<Rightarrow> root) \<Rightarrow> ('v, 'r) optional_cls \<Rightarrow> node" where
  "default_node H cls = PairNode (zero_node H (contents_depth cls)) (zero_node H 0)"

subsection \<open>What the claims assume of the element type\<close>

text \<open>
  The container stores and returns element values through the element type's own
  encoding, so the properties of the container hold for element types that read back
  what they wrote. Which pair of operations carries a value depends on the packed flag.
\<close>

definition elem_roundtrip :: "('v, 'r) view_cls \<Rightarrow> bool" where
  "elem_roundtrip T \<longleftrightarrow>
     (\<forall>v. isinstance_elem T v \<longrightarrow> view_from_backing T (get_backing T v) = Inr v)"

definition elem_packed_roundtrip :: "('v, 'r) view_cls \<Rightarrow> bool" where
  "elem_packed_roundtrip T \<longleftrightarrow>
     issubclass_BasicView T
     \<and> (\<exists>sz. type_byte_length T = Inr sz \<and> 0 < sz \<and> sz \<le> 32)
     \<and> pack_views T [] = []
     \<and> (\<forall>v. isinstance_elem T v \<longrightarrow>
            view_is_basic T v
            \<and> (\<exists>c. pack_views T [v] = [c] \<and> basic_view_from_backing T c 0 = Inr v)
            \<and> (\<forall>chunk. basic_view_from_backing T (backing_from_base T v chunk 0) 0 = Inr v))"

definition valid_elem :: "('v, 'r) view_cls \<Rightarrow> bool" where
  "valid_elem T \<longleftrightarrow>
     (if isinstance_BasicView T then elem_packed_roundtrip T else elem_roundtrip T)
     \<and> (\<forall>x v. coerce_view T x = Inr v \<longrightarrow> isinstance_elem T v)"

text \<open>An input of the element type: a view of the type, or a raw value that the type
  coerces; \<open>v\<close> is the value it stands for.\<close>

definition input_value :: "('v, 'r) view_cls \<Rightarrow> ('v, 'r) pyvalue \<Rightarrow> 'v \<Rightarrow> bool" where
  "input_value T inp v \<longleftrightarrow>
     (case inp of
        IsView x \<Rightarrow> x = v \<and> isinstance_elem T v
      | Raw r \<Rightarrow> coerce_view T inp = Inr v)"

text \<open>The element type's serializer appends the bytes it counts, at least its minimum
  length, and its deserializer reads the value back from them within that scope.\<close>

definition elem_serial_roundtrip :: "('v, 'r) view_cls \<Rightarrow> bool" where
  "elem_serial_roundtrip T \<longleftrightarrow>
     (\<forall>v s. isinstance_elem T v \<longrightarrow>
        (\<exists>bs. serialize T v s = (length bs, s @ bs)
            \<and> min_byte_length T \<le> length bs
            \<and> (\<forall>rest. deserialize T (bs @ rest) (int (length bs)) = Inr (v, rest))))"

subsection \<open>Instances the methods can produce\<close>

text \<open>An instance built from a value (or from none), and every instance a call of
  \<^verbatim>\<open>set\<close> leaves behind; no instance is adopted from a raw backing.\<close>

inductive reachable ::
  "(root \<Rightarrow> root \<Rightarrow> root) \<Rightarrow> ('v, 'r) optional_cls \<Rightarrow> node \<Rightarrow> bool"
  for H :: "root \<Rightarrow> root \<Rightarrow> root" and cls :: "('v, 'r) optional_cls" where
  from_value: "Optional_new H cls val None = Inr self \<Longrightarrow> reachable H cls self"
| after_set: "reachable H cls self \<Longrightarrow> Optional_set H cls v self = Some (Inr self') \<Longrightarrow> reachable H cls self'"

subsection \<open>A concrete element type: \<^verbatim>\<open>uint8\<close>\<close>

text \<open>
  For concrete evaluations the views are the \<^verbatim>\<open>uint8\<close> values and the views of any other
  class (known by their backing), the raw values are the Python integers, and the hash
  is a stand-in; no theorem below depends on the choice of the hash.
\<close>

datatype pyview = Uint8View byte | OtherView node

definition xor_hash :: "root \<Rightarrow> root \<Rightarrow> root" where
  "xor_hash a b = a XOR b"

fun le_word :: "byte list \<Rightarrow> root" where
  "le_word [] = 0"
| "le_word (b # bs) = ucast b OR push_bit 8 (le_word bs)"

fun chunk32 :: "byte list \<Rightarrow> byte list list" where
  "chunk32 bs = (if bs = [] then [] else take 32 bs # chunk32 (drop 32 bs))"

declare chunk32.simps [simp del]

fun uint8_bytes :: "pyview \<Rightarrow> byte list" where
  "uint8_bytes (Uint8View b) = [b]"
| "uint8_bytes (OtherView n) = []"

definition uint8_cls :: "(root \<Rightarrow> root \<Rightarrow> root) \<Rightarrow> (pyview, int) view_cls" where
  "uint8_cls H =
     \<lparr>isinstance_elem = (\<lambda>v. case v of Uint8View b \<Rightarrow> True | OtherView n \<Rightarrow> False),
      isinstance_BasicView = False,
      issubclass_BasicView = True,
      view_is_basic = (\<lambda>v. case v of Uint8View b \<Rightarrow> True | OtherView n \<Rightarrow> False),
      min_byte_length = 1,
      max_byte_length = 1,
      is_fixed_byte_length = True,
      type_byte_length = Inr 1,
      coerce_view = (\<lambda>x. case x of
                        Raw n \<Rightarrow> if 0 \<le> n \<and> n < 256 then Inr (Uint8View (word_of_int n)) else Inl ElemError
                      | IsView (Uint8View b) \<Rightarrow> Inr (Uint8View b)
                      | IsView (OtherView n) \<Rightarrow> Inl ElemError),
      view_from_backing = (\<lambda>n. Inr (Uint8View (ucast (merkle_root H n)))),
      basic_view_from_backing =
        (\<lambda>n i. if i < 32 then Inr (Uint8View (ucast (drop_bit (8 * i) (merkle_root H n))))
                else Inl ElemError),
      pack_views = (\<lambda>vs. map (\<lambda>c. RootNode (le_word c)) (chunk32 (concat (map uint8_bytes vs)))),
      get_backing = (\<lambda>v. case v of Uint8View b \<Rightarrow> RootNode (ucast b) | OtherView n \<Rightarrow> n),
      backing_from_base =
        (\<lambda>v chunk i. case v of
             Uint8View b \<Rightarrow>
               RootNode ((merkle_root H chunk AND NOT (push_bit (8 * i) 255)) OR push_bit (8 * i) (ucast b))
           | OtherView n \<Rightarrow> chunk),
      value_byte_length = (\<lambda>v. 1),
      serialize = (\<lambda>v s. case v of Uint8View b \<Rightarrow> (1, s @ [b]) | OtherView n \<Rightarrow> (0, s)),
      deserialize =
        (\<lambda>s scope. if scope \<noteq> 1 then Inl ElemError
                    else (case s of [] \<Rightarrow> Inl ElemError | b # rest \<Rightarrow> Inr (Uint8View b, rest)))\<rparr>"

text \<open>The specialization \<^verbatim>\<open>Optional[uint8]\<close>.\<close>

definition uint8_optional :: "(root \<Rightarrow> root \<Rightarrow> root) \<Rightarrow> (pyview, int) optional_cls" where
  "uint8_optional H =
     \<lparr>is_packed = False, contents_depth = 0, element_cls = uint8_cls H, limit = 1\<rparr>"

section \<open>Properties\<close>

subsection \<open>Evaluation rules\<close>


lemma ebind_simps [simp]: "ebind (Inl e) f = Inl e" "ebind (Inr x) f = f x"
  by (simp_all add: ebind_def)

lemma rbind_simps [simp]: "rbind None f = None" "rbind (Some (Inl e)) f = Some (Inl e)" "rbind (Some (Inr x)) f = f x"
  by (simp_all add: rbind_def)

declare gindex_path.simps [simp del]

lemma gindex_path_2: "gindex_path 2 = [False]"
  by (simp add: gindex_path.simps [of 2] gindex_path.simps [of 1])

lemma to_gindex_0_1: "to_gindex 0 (Suc 0) = Inr 2"
  by (simp add: to_gindex_def)

lemma getter_left: "getter (PairNode l r) 2 = Inr l"
  by (simp add: getter_def gindex_path_2)

lemma setter_left: "setter H (PairNode l r) 2 e v = Inr (PairNode v r)"
  by (simp add: setter_def gindex_path_2)

lemma get_depth_1: "get_depth 1 = 0"
  by (simp add: get_depth_def)

lemma class_getitem_Inr:
  "class_getitem T = Inr cls \<Longrightarrow>
     0 < min_byte_length T \<and> is_packed cls = isinstance_BasicView T \<and> contents_depth cls = 0
     \<and> element_cls cls = T \<and> limit cls = 1"
  by (auto simp: class_getitem_def get_depth_1 Let_def split: if_splits)

lemma tree_depth_class: "class_getitem T = Inr cls \<Longrightarrow> tree_depth cls = Suc 0"
  by (simp add: tree_depth_def class_getitem_Inr)

lemma uint256_roundtrip_0: "uint256_view_from_backing H (uint256_get_backing 0) = 0"
  by (simp add: uint256_view_from_backing_def uint256_get_backing_def)

lemma uint256_roundtrip_1: "uint256_view_from_backing H (uint256_get_backing 1) = 1"
  by (simp add: uint256_view_from_backing_def uint256_get_backing_def)

lemma length_Pair: "Optional_length H (PairNode c r) = Inr (uint256_view_from_backing H r)"
  by (simp add: Optional_length_def)

lemma length_Inr_Pair: "Optional_length H self = Inr n \<Longrightarrow> \<exists>c r. self = PairNode c r \<and> n = uint256_view_from_backing H r"
  by (cases self) (auto simp: Optional_length_def)

lemma SubtreeView_get_unpacked:
  "class_getitem T = Inr cls \<Longrightarrow> \<not> isinstance_BasicView T \<Longrightarrow>
     SubtreeView_get cls (PairNode c r) 0 = view_from_backing T c"
  by (simp add: SubtreeView_get_def class_getitem_Inr tree_depth_class to_gindex_0_1 getter_left)

lemma SubtreeView_get_packed:
  "class_getitem T = Inr cls \<Longrightarrow> isinstance_BasicView T \<Longrightarrow>
     type_byte_length T = Inr sz \<Longrightarrow> 0 < sz \<Longrightarrow> sz \<le> 32 \<Longrightarrow>
     SubtreeView_get cls (PairNode c r) 0 = basic_view_from_backing T c 0"
proof -
  assume a: "class_getitem T = Inr cls" "isinstance_BasicView T" "type_byte_length T = Inr sz"
    "0 < sz" "sz \<le> 32"
  have "0 < (32::int) div int sz"
    using a(4,5) by (simp add: pos_imp_zdiv_pos_iff)
  then have "(32::int) div int sz \<noteq> 0" by simp
  then show ?thesis using a
    by (simp add: SubtreeView_get_def class_getitem_Inr tree_depth_class to_gindex_0_1 getter_left
        py_floordiv_def py_mod_def)
qed

lemma views_into_chunks_single:
  assumes "class_getitem T = Inr cls" and "valid_elem T" and "isinstance_elem T v"
  shows "\<exists>c. views_into_chunks cls [v] = Inr [c] \<and> SubtreeView_get cls (PairNode c r) 0 = Inr v"
proof (cases "isinstance_BasicView T")
  case True
  with assms(2) have p: "elem_packed_roundtrip T" by (simp add: valid_elem_def)
  then obtain sz where s: "type_byte_length T = Inr sz" "0 < sz" "sz \<le> 32"
    by (auto simp: elem_packed_roundtrip_def)
  from p assms(3) obtain c where c: "pack_views T [v] = [c]" "basic_view_from_backing T c 0 = Inr v"
    by (auto simp: elem_packed_roundtrip_def)
  from p have sub: "issubclass_BasicView T" by (simp add: elem_packed_roundtrip_def)
  have "views_into_chunks cls [v] = Inr [c]"
    using assms(1) True sub c(1) by (simp add: views_into_chunks_def class_getitem_Inr)
  moreover have "SubtreeView_get cls (PairNode c r) 0 = Inr v"
    using SubtreeView_get_packed [OF assms(1) True s] c(2) by simp
  ultimately show ?thesis by blast
next
  case False
  with assms(2) have u: "elem_roundtrip T" by (simp add: valid_elem_def)
  have "views_into_chunks cls [v] = Inr [get_backing T v]"
    using assms(1) False by (simp add: views_into_chunks_def class_getitem_Inr)
  moreover have "SubtreeView_get cls (PairNode (get_backing T v) r) 0 = Inr v"
    using SubtreeView_get_unpacked [OF assms(1) False] u assms(3) by (simp add: elem_roundtrip_def)
  ultimately show ?thesis by blast
qed

lemma input_value_isinstance:
  "valid_elem T \<Longrightarrow> input_value T inp v \<Longrightarrow> isinstance_elem T v"
  by (auto simp: valid_elem_def input_value_def split: pyvalue.splits)

lemma new_value:
  assumes "class_getitem T = Inr cls" and "valid_elem T" and "input_value T inp v"
  shows "\<exists>c. Optional_new H cls (Some inp) None = Inr (PairNode c (uint256_get_backing 1))
            \<and> SubtreeView_get cls (PairNode c (uint256_get_backing 1)) 0 = Inr v"
proof -
  have iv: "isinstance_elem T v" using assms(2,3) by (rule input_value_isinstance)
  obtain c where c: "views_into_chunks cls [v] = Inr [c]"
    "SubtreeView_get cls (PairNode c (uint256_get_backing 1)) 0 = Inr v"
    using views_into_chunks_single [OF assms(1,2) iv] by blast
  have "Optional_new H cls (Some inp) None = Inr (PairNode c (uint256_get_backing 1))"
    using assms(1,3) c(1)
    by (cases inp) (simp_all add: Optional_new_def class_getitem_Inr input_value_def)
  with c(2) show ?thesis by blast
qed

lemma uint8_class_getitem: "class_getitem (uint8_cls H) = Inr (uint8_optional H)"
  by (simp add: class_getitem_def uint8_cls_def uint8_optional_def get_depth_1)

lemma ucast_byte_root: "ucast (ucast (b :: byte) :: root) = b"
  by (rule ucast_up_ucast_id) (simp add: is_up)

lemma uint8_valid_elem: "valid_elem (uint8_cls H)"
proof -
  have rt: "elem_roundtrip (uint8_cls H)"
    by (auto simp: elem_roundtrip_def uint8_cls_def ucast_byte_root split: pyview.splits)
  have co: "\<forall>x v. coerce_view (uint8_cls H) x = Inr v \<longrightarrow> isinstance_elem (uint8_cls H) v"
    by (auto simp: uint8_cls_def split: pyvalue.splits pyview.splits if_splits)
  have np: "\<not> isinstance_BasicView (uint8_cls H)"
    by (simp add: uint8_cls_def)
  show ?thesis using rt co np by (simp add: valid_elem_def)
qed

text \<open>The assumptions on a packed element type are met as well: \<^verbatim>\<open>uint8\<close> taken as
  packed.\<close>

lemma byte_overwrite_mask: "ucast ((x AND NOT (mask 8)) OR ucast (b :: byte) :: root) = b"
  by (rule bit_word_eqI) (auto simp: bit_simps)

lemma byte_overwrite: "ucast ((x AND - 256) OR ucast (b :: byte) :: root) = b"
proof -
  have "(- 256 :: root) = NOT (mask 8)"
    by (simp add: not_eq_complement mask_eq_exp_minus_1)
  then show ?thesis by (simp only: byte_overwrite_mask)
qed

lemma uint8_packed_valid_elem: "valid_elem ((uint8_cls H)\<lparr>isinstance_BasicView := True\<rparr>)"
proof -
  have ch: "\<And>b. chunk32 [b] = [[b]]"
    by (simp add: chunk32.simps [of "[b]" for b] chunk32.simps [of "[]"])
  have "elem_packed_roundtrip ((uint8_cls H)\<lparr>isinstance_BasicView := True\<rparr>)"
    by (auto simp: elem_packed_roundtrip_def uint8_cls_def ch chunk32.simps [of "[]"]
        ucast_byte_root byte_overwrite split: pyview.splits)
  moreover have "\<forall>x v. coerce_view ((uint8_cls H)\<lparr>isinstance_BasicView := True\<rparr>) x = Inr v
      \<longrightarrow> isinstance_elem ((uint8_cls H)\<lparr>isinstance_BasicView := True\<rparr>) v"
    by (auto simp: uint8_cls_def split: pyvalue.splits pyview.splits if_splits)
  ultimately show ?thesis by (simp add: valid_elem_def)
qed

lemma uint8_input_view: "input_value (uint8_cls H) (IsView (Uint8View b)) (Uint8View b)"
  by (simp add: input_value_def uint8_cls_def)

lemma as_elem_input: "input_value T inp v \<Longrightarrow> as_elem T inp = Inr v"
  by (cases inp) (auto simp: input_value_def as_elem_def)

lemma SubtreeView_set_unpacked:
  "class_getitem T = Inr cls \<Longrightarrow> \<not> isinstance_BasicView T \<Longrightarrow> as_elem T inp = Inr v \<Longrightarrow>
     SubtreeView_set H cls (PairNode c r) 0 inp = Inr (PairNode (get_backing T v) r)"
  by (simp add: SubtreeView_set_def class_getitem_Inr tree_depth_class to_gindex_0_1 setter_left)

lemma SubtreeView_set_packed:
  assumes "class_getitem T = Inr cls" and "isinstance_BasicView T" and "as_elem T inp = Inr v"
    and "view_is_basic T v" and "type_byte_length T = Inr sz" and "0 < sz" and "sz \<le> 32"
  shows "SubtreeView_set H cls (PairNode c r) 0 inp = Inr (PairNode (backing_from_base T v c 0) r)"
proof -
  have "0 < (32::int) div int sz"
    using assms(6,7) by (simp add: pos_imp_zdiv_pos_iff)
  then have "(32::int) div int sz \<noteq> 0" by simp
  then show ?thesis using assms
    by (simp add: SubtreeView_set_def class_getitem_Inr tree_depth_class to_gindex_0_1 getter_left
        setter_left py_floordiv_def py_mod_def)
qed

lemma SubtreeView_set_keeps_right:
  assumes "class_getitem T = Inr cls" and "SubtreeView_set H cls (PairNode c r) 0 inp = Inr self'"
  shows "\<exists>c'. self' = PairNode c' r"
  using assms
  by (auto simp: SubtreeView_set_def class_getitem_Inr tree_depth_class to_gindex_0_1 getter_left
      setter_left py_floordiv_def py_mod_def ebind_def split: sum.splits if_splits)

lemma overwrite_pair:
  assumes "class_getitem T = Inr cls" and "valid_elem T" and "input_value T inp v2"
  shows "\<exists>c'. SubtreeView_set H cls (PairNode c r) 0 inp = Inr (PairNode c' r)
            \<and> SubtreeView_get cls (PairNode c' r) 0 = Inr v2"
proof (cases "isinstance_BasicView T")
  case True
  with assms(2) have p: "elem_packed_roundtrip T" by (simp add: valid_elem_def)
  then obtain sz where s: "type_byte_length T = Inr sz" "0 < sz" "sz \<le> 32"
    by (auto simp: elem_packed_roundtrip_def)
  have iv: "isinstance_elem T v2" using assms(2,3) by (rule input_value_isinstance)
  from p iv have b: "view_is_basic T v2"
    and rt: "basic_view_from_backing T (backing_from_base T v2 c 0) 0 = Inr v2"
    by (auto simp: elem_packed_roundtrip_def)
  have "SubtreeView_set H cls (PairNode c r) 0 inp = Inr (PairNode (backing_from_base T v2 c 0) r)"
    using SubtreeView_set_packed [OF assms(1) True as_elem_input [OF assms(3)] b s] .
  moreover have "SubtreeView_get cls (PairNode (backing_from_base T v2 c 0) r) 0 = Inr v2"
    using SubtreeView_get_packed [OF assms(1) True s] rt by simp
  ultimately show ?thesis by blast
next
  case False
  with assms(2) have u: "elem_roundtrip T" by (simp add: valid_elem_def)
  have iv: "isinstance_elem T v2" using assms(2,3) by (rule input_value_isinstance)
  have "SubtreeView_set H cls (PairNode c r) 0 inp = Inr (PairNode (get_backing T v2) r)"
    using SubtreeView_set_unpacked [OF assms(1) False as_elem_input [OF assms(3)]] .
  moreover have "SubtreeView_get cls (PairNode (get_backing T v2) r) 0 = Inr v2"
    using SubtreeView_get_unpacked [OF assms(1) False] u iv by (simp add: elem_roundtrip_def)
  ultimately show ?thesis by blast
qed

lemma uint8_new_value:
  "Optional_new H (uint8_optional H) (Some (IsView (Uint8View b))) None = Inr (PairNode (RootNode (ucast b)) (RootNode 1))"
  by (simp add: Optional_new_def uint8_optional_def uint8_cls_def views_into_chunks_def
      uint256_get_backing_def)

lemma uint8_new_none:
  "Optional_new H (uint8_optional H) None None = Inr (PairNode (RootNode 0) (RootNode 0))"
  by (simp add: Optional_new_def uint8_optional_def uint8_cls_def views_into_chunks_def
      uint256_get_backing_def zero_node_def)

lemma uint8_set_in_place:
  "Optional_set xor_hash (uint8_optional xor_hash) (Some (IsView (Uint8View 9))) (PairNode (RootNode 5) (RootNode 1))
     = Some (Inr (PairNode (RootNode 9) (RootNode 1)))"
  by (simp add: Optional_set_def Optional_length_def uint256_view_from_backing_def SubtreeView_set_def
      as_elem_def uint8_optional_def uint8_cls_def tree_depth_def to_gindex_0_1 setter_left)

lemma uint8_reachable_9: "reachable xor_hash (uint8_optional xor_hash) (PairNode (RootNode 9) (RootNode 1))"
proof -
  have "Optional_new xor_hash (uint8_optional xor_hash) (Some (IsView (Uint8View 5))) None
          = Inr (PairNode (RootNode 5) (RootNode 1))"
    using uint8_new_value [of xor_hash 5] by simp
  then have "reachable xor_hash (uint8_optional xor_hash) (PairNode (RootNode 5) (RootNode 1))"
    by (rule reachable.from_value)
  then show ?thesis using uint8_set_in_place by (rule reachable.after_set)
qed

lemma new_then_get:
  assumes "class_getitem T = Inr cls" and "valid_elem T" and "input_value T inp v"
  shows "\<exists>self. Optional_new H cls (Some inp) None = Inr self \<and> Optional_get H cls self = Inr (Some v)"
proof -
  obtain c where c: "Optional_new H cls (Some inp) None = Inr (PairNode c (uint256_get_backing 1))"
    "SubtreeView_get cls (PairNode c (uint256_get_backing 1)) 0 = Inr v"
    using new_value [OF assms] by blast
  have "Optional_get H cls (PairNode c (uint256_get_backing 1)) = Inr (Some v)"
    using c(2) by (simp add: Optional_get_def length_Pair uint256_roundtrip_1)
  with c(1) show ?thesis by blast
qed

subsection \<open>Construction\<close>

text \<open>
  Claim C4 (construction round-trip). For every valid element type \<open>T\<close> (one that
  \<^verbatim>\<open>Optional[T]\<close> accepts and that reads back what it stores) and every input of \<open>T\<close>, a view
  of \<open>T\<close> or a raw value that \<open>T\<close> coerces to the view \<open>v\<close>, constructing the instance from
  the input succeeds and \<^verbatim>\<open>get()\<close> on it returns \<open>v\<close>.
\<close>

theorem construction_roundtrip:
  assumes "class_getitem T = Inr cls" and "valid_elem T" and "input_value T inp v"
  shows "\<exists>self. Optional_new H cls (Some inp) None = Inr self \<and> Optional_get H cls self = Inr (Some v)"
  using assms by (rule new_then_get)

theorem construction_roundtrip_witness:
  "class_getitem (uint8_cls xor_hash) = Inr (uint8_optional xor_hash)
   \<and> valid_elem (uint8_cls xor_hash)
   \<and> input_value (uint8_cls xor_hash) (IsView (Uint8View 5)) (Uint8View 5)
   \<and> (\<exists>self. Optional_new xor_hash (uint8_optional xor_hash) (Some (IsView (Uint8View 5))) None = Inr self
         \<and> Optional_get xor_hash (uint8_optional xor_hash) self = Inr (Some (Uint8View 5)))"
  using construction_roundtrip [OF uint8_class_getitem uint8_valid_elem uint8_input_view, of xor_hash xor_hash 5]
    uint8_class_getitem uint8_valid_elem uint8_input_view
  by simp

subsection \<open>Serialization\<close>

lemma new_none:
  assumes "class_getitem T = Inr cls" and "valid_elem T"
  shows "Optional_new H cls None None = Inr (default_node H cls)"
proof -
  have "views_into_chunks cls [] = Inr []"
    using assms by (auto simp: views_into_chunks_def class_getitem_Inr valid_elem_def
        elem_packed_roundtrip_def split: if_splits)
  then show ?thesis using assms(1)
    by (simp add: Optional_new_def class_getitem_Inr default_node_def uint256_get_backing_def
        zero_node_def)
qed

lemma get_default: "Optional_get H cls (default_node H cls) = Inr None"
  by (simp add: Optional_get_def default_node_def length_Pair uint256_view_from_backing_def zero_node_def)

text \<open>
  Claim C1 (serialization round-trip). For every valid element type whose serializer and
  deserializer agree, and every value \<open>v\<close> of it: the instance built from \<open>v\<close> serializes
  into a buffer of \<open>n\<close> bytes, and deserializing that buffer with scope \<open>n\<close> consumes it and
  yields an instance whose \<^verbatim>\<open>get()\<close> is \<open>v\<close>. Deserializing with scope 0 yields the absent
  instance (the default node, whose \<^verbatim>\<open>get()\<close> is \<^verbatim>\<open>None\<close>) and leaves the stream, empty or
  not, as it was.
\<close>

theorem serialization_roundtrip:
  assumes "class_getitem T = Inr cls" and "valid_elem T" and "elem_serial_roundtrip T"
    and "input_value T inp v"
  shows "(\<exists>self n buffer self'.
            Optional_new H cls (Some inp) None = Inr self
          \<and> Optional_serialize H cls self [] = Inr (n, buffer)
          \<and> n = length buffer
          \<and> Optional_deserialize H cls buffer (int n) = Inr (self', [])
          \<and> Optional_get H cls self' = Inr (Some v))
       \<and> Optional_deserialize H cls stream 0 = Inr (default_node H cls, stream)
       \<and> Optional_get H cls (default_node H cls) = Inr None"
proof -
  have T: "element_cls cls = T" and m: "0 < min_byte_length T"
    using assms(1) by (simp_all add: class_getitem_Inr)
  have iv: "isinstance_elem T v" using assms(2,4) by (rule input_value_isinstance)
  obtain self where self: "Optional_new H cls (Some inp) None = Inr self"
    "Optional_get H cls self = Inr (Some v)"
    using new_then_get [OF assms(1,2,4)] by blast
  obtain bs where bs: "serialize T v [] = (length bs, [] @ bs)" "min_byte_length T \<le> length bs"
    "\<forall>rest. deserialize T (bs @ rest) (int (length bs)) = Inr (v, rest)"
    using assms(3) iv unfolding elem_serial_roundtrip_def by blast
  have ser: "Optional_serialize H cls self [] = Inr (length bs, bs)"
    using self(2) bs(1) by (simp add: Optional_serialize_def T)
  have "0 < length bs" using m bs(2) by linarith
  then have nz: "int (length bs) \<noteq> 0" by simp
  have de: "deserialize T bs (int (length bs)) = Inr (v, [])"
    using bs(3) [rule_format, of "[]"] by simp
  have iv': "input_value T (IsView v) v" using iv by (simp add: input_value_def)
  obtain self' where self': "Optional_new H cls (Some (IsView v)) None = Inr self'"
    "Optional_get H cls self' = Inr (Some v)"
    using new_then_get [OF assms(1,2) iv'] by blast
  have des: "Optional_deserialize H cls bs (int (length bs)) = Inr (self', [])"
    using nz de self'(1) by (simp add: Optional_deserialize_def T)
  have empty: "Optional_deserialize H cls stream 0 = Inr (default_node H cls, stream)"
    using new_none [OF assms(1,2)] by (simp add: Optional_deserialize_def)
  show ?thesis using self(1) ser des self'(2) empty get_default by blast
qed

lemma uint8_serial_roundtrip: "elem_serial_roundtrip (uint8_cls H)"
  unfolding elem_serial_roundtrip_def
proof (intro allI impI)
  fix v s assume "isinstance_elem (uint8_cls H) v"
  then obtain b where v: "v = Uint8View b"
    by (cases v) (simp_all add: uint8_cls_def)
  have "serialize (uint8_cls H) v s = (length [b], s @ [b])
      \<and> min_byte_length (uint8_cls H) \<le> length [b]
      \<and> (\<forall>rest. deserialize (uint8_cls H) ([b] @ rest) (int (length [b])) = Inr (v, rest))"
    by (simp add: v uint8_cls_def)
  then show "\<exists>bs. serialize (uint8_cls H) v s = (length bs, s @ bs)
            \<and> min_byte_length (uint8_cls H) \<le> length bs
            \<and> (\<forall>rest. deserialize (uint8_cls H) (bs @ rest) (int (length bs)) = Inr (v, rest))"
    by blast
qed

theorem serialization_roundtrip_witness:
  "class_getitem (uint8_cls xor_hash) = Inr (uint8_optional xor_hash)
   \<and> valid_elem (uint8_cls xor_hash)
   \<and> elem_serial_roundtrip (uint8_cls xor_hash)
   \<and> input_value (uint8_cls xor_hash) (IsView (Uint8View 171)) (Uint8View 171)
   \<and> (\<exists>self n buffer self'.
            Optional_new xor_hash (uint8_optional xor_hash) (Some (IsView (Uint8View 171))) None = Inr self
          \<and> Optional_serialize xor_hash (uint8_optional xor_hash) self [] = Inr (n, buffer)
          \<and> n = length buffer
          \<and> Optional_deserialize xor_hash (uint8_optional xor_hash) buffer (int n) = Inr (self', [])
          \<and> Optional_get xor_hash (uint8_optional xor_hash) self' = Inr (Some (Uint8View 171)))
   \<and> Optional_deserialize xor_hash (uint8_optional xor_hash) [] 0
        = Inr (default_node xor_hash (uint8_optional xor_hash), [])
   \<and> Optional_get xor_hash (uint8_optional xor_hash) (default_node xor_hash (uint8_optional xor_hash)) = Inr None"
  using serialization_roundtrip [OF uint8_class_getitem uint8_valid_elem uint8_serial_roundtrip uint8_input_view]
    uint8_class_getitem uint8_valid_elem uint8_serial_roundtrip uint8_input_view
  by blast

subsection \<open>Mutation\<close>

text \<open>
  Claim C7 (idempotence of clearing). On an instance whose \<^verbatim>\<open>length()\<close> is 0,
  \<^verbatim>\<open>set(None)\<close> returns at once: the backing it leaves is the very backing it found, no
  replacement, no summarization and no length rebind take place.
\<close>

theorem clear_absent_noop:
  "Optional_length H self = Inr 0 \<Longrightarrow> Optional_set H cls None self = Some (Inr self)"
  by (simp add: Optional_set_def)

theorem clear_absent_noop_witness:
  "Optional_length xor_hash (PairNode (RootNode 0) (RootNode 0)) = Inr 0
   \<and> Optional_set xor_hash (uint8_optional xor_hash) None (PairNode (RootNode 0) (RootNode 0))
       = Some (Inr (PairNode (RootNode 0) (RootNode 0)))"
proof -
  have h: "Optional_length xor_hash (PairNode (RootNode 0) (RootNode 0)) = Inr 0"
    by (simp add: Optional_length_def uint256_view_from_backing_def)
  show ?thesis using h clear_absent_noop [OF h, of "uint8_optional xor_hash"] by simp
qed

text \<open>
  Claim C6 (overwrite in place). On an instance with \<^verbatim>\<open>length() == 1\<close>, \<^verbatim>\<open>set(v2)\<close> for
  an input of the element type installs a backing with \<^verbatim>\<open>length() == 1\<close> and
  \<^verbatim>\<open>get() == v2\<close> whose right child, the length node, is the node the old backing had.
\<close>

theorem overwrite_in_place:
  assumes "class_getitem T = Inr cls" and "valid_elem T" and "input_value T inp v2"
    and "Optional_length H x = Inr 1"
  shows "\<exists>x'. Optional_set H cls (Some inp) x = Some (Inr x')
            \<and> Optional_length H x' = Inr 1
            \<and> Optional_get H cls x' = Inr (Some v2)
            \<and> get_right x' = get_right x"
proof -
  obtain c r where x: "x = PairNode c r" and r: "uint256_view_from_backing H r = 1"
    using length_Inr_Pair [OF assms(4)] by auto
  obtain c' where c': "SubtreeView_set H cls (PairNode c r) 0 inp = Inr (PairNode c' r)"
    "SubtreeView_get cls (PairNode c' r) 0 = Inr v2"
    using overwrite_pair [OF assms(1-3)] by blast
  have "Optional_set H cls (Some inp) x = Some (Inr (PairNode c' r))"
    using assms(4) c'(1) x by (simp add: Optional_set_def)
  moreover have "Optional_length H (PairNode c' r) = Inr 1"
    using r by (simp add: length_Pair)
  moreover have "Optional_get H cls (PairNode c' r) = Inr (Some v2)"
    using r c'(2) by (simp add: Optional_get_def length_Pair)
  moreover have "get_right (PairNode c' r) = get_right x"
    by (simp add: x)
  ultimately show ?thesis by blast
qed

lemma present_7_length: "Optional_length xor_hash (PairNode (RootNode 7) (RootNode 1)) = Inr 1"
  by (simp add: Optional_length_def uint256_view_from_backing_def)

theorem overwrite_in_place_witness:
  "class_getitem (uint8_cls xor_hash) = Inr (uint8_optional xor_hash)
   \<and> valid_elem (uint8_cls xor_hash)
   \<and> input_value (uint8_cls xor_hash) (IsView (Uint8View 9)) (Uint8View 9)
   \<and> Optional_length xor_hash (PairNode (RootNode 7) (RootNode 1)) = Inr 1
   \<and> (\<exists>x'. Optional_set xor_hash (uint8_optional xor_hash) (Some (IsView (Uint8View 9)))
               (PairNode (RootNode 7) (RootNode 1)) = Some (Inr x')
          \<and> Optional_length xor_hash x' = Inr 1
          \<and> Optional_get xor_hash (uint8_optional xor_hash) x' = Inr (Some (Uint8View 9))
          \<and> get_right x' = get_right (PairNode (RootNode 7) (RootNode 1)))"
  using overwrite_in_place [OF uint8_class_getitem uint8_valid_elem uint8_input_view present_7_length]
    uint8_class_getitem uint8_valid_elem uint8_input_view present_7_length
  by blast

lemma clear_present_name_error:
  "Optional_length H self = Inr n \<Longrightarrow> n \<noteq> 0 \<Longrightarrow> Optional_set H cls None self = Some (Inl NameError)"
  by (simp add: Optional_set_def global_to_gindex_def)

lemma set_value_absent_fails:
  "Optional_length H self = Inr n \<Longrightarrow> n \<noteq> 1 \<Longrightarrow>
     Optional_set H cls (Some inp) self
       = Some (Inl (case as_elem (element_cls cls) inp of Inl e \<Rightarrow> e | Inr x \<Rightarrow> NameError))"
  by (cases "as_elem (element_cls cls) inp") (simp_all add: Optional_set_def global_to_gindex_def)

text \<open>
  Claim C2 (clear-then-set). The claim says that \<^verbatim>\<open>set(None)\<close> followed by \<^verbatim>\<open>set(v)\<close>
  leaves \<^verbatim>\<open>get() == v\<close> from any prior state. In the code both the clearing of a present
  instance and the setting of a value on an absent one evaluate the name \<^verbatim>\<open>to_gindex\<close>,
  which the module never binds. On \<^verbatim>\<open>Optional[uint8]\<close>: clearing the instance built from
  5 raises \<^verbatim>\<open>NameError\<close>; on the absent instance \<^verbatim>\<open>set(None)\<close> is a no-op, the following
  \<^verbatim>\<open>set(5)\<close> raises \<^verbatim>\<open>NameError\<close>, and \<^verbatim>\<open>get()\<close> is still \<^verbatim>\<open>None\<close>.
\<close>

theorem clear_then_set_name_error:
  "Optional_new xor_hash (uint8_optional xor_hash) (Some (IsView (Uint8View 5))) None
     = Inr (PairNode (RootNode 5) (RootNode 1))
   \<and> Optional_set xor_hash (uint8_optional xor_hash) None (PairNode (RootNode 5) (RootNode 1))
     = Some (Inl NameError)
   \<and> Optional_new xor_hash (uint8_optional xor_hash) None None
     = Inr (PairNode (RootNode 0) (RootNode 0))
   \<and> Optional_set xor_hash (uint8_optional xor_hash) None (PairNode (RootNode 0) (RootNode 0))
     = Some (Inr (PairNode (RootNode 0) (RootNode 0)))
   \<and> Optional_set xor_hash (uint8_optional xor_hash) (Some (IsView (Uint8View 5))) (PairNode (RootNode 0) (RootNode 0))
     = Some (Inl NameError)
   \<and> Optional_get xor_hash (uint8_optional xor_hash) (PairNode (RootNode 0) (RootNode 0)) = Inr None"
proof -
  have a: "Optional_length xor_hash (PairNode (RootNode 5) (RootNode 1)) = Inr 1"
    and b: "Optional_length xor_hash (PairNode (RootNode 0) (RootNode 0)) = Inr 0"
    by (simp_all add: Optional_length_def uint256_view_from_backing_def)
  have e: "as_elem (element_cls (uint8_optional xor_hash)) (IsView (Uint8View 5)) = Inr (Uint8View 5)"
    by (simp add: as_elem_def uint8_optional_def uint8_cls_def)
  have 1: "Optional_new xor_hash (uint8_optional xor_hash) (Some (IsView (Uint8View 5))) None
     = Inr (PairNode (RootNode 5) (RootNode 1))"
    using uint8_new_value [of xor_hash 5] by simp
  have 2: "Optional_set xor_hash (uint8_optional xor_hash) None (PairNode (RootNode 5) (RootNode 1))
     = Some (Inl NameError)"
    using clear_present_name_error [OF a] by simp
  have 4: "Optional_set xor_hash (uint8_optional xor_hash) None (PairNode (RootNode 0) (RootNode 0))
     = Some (Inr (PairNode (RootNode 0) (RootNode 0)))"
    using b by (simp add: Optional_set_def)
  have 5: "Optional_set xor_hash (uint8_optional xor_hash) (Some (IsView (Uint8View 5))) (PairNode (RootNode 0) (RootNode 0))
     = Some (Inl NameError)"
    using set_value_absent_fails [OF b, of "uint8_optional xor_hash" "IsView (Uint8View 5)"] e by simp
  have 6: "Optional_get xor_hash (uint8_optional xor_hash) (PairNode (RootNode 0) (RootNode 0)) = Inr None"
    using b by (simp add: Optional_get_def)
  show ?thesis using 1 2 uint8_new_none [of xor_hash] 4 5 6 by simp
qed

lemma new_length_bit:
  "Optional_new H cls val None = Inr self \<Longrightarrow>
     \<exists>c. self = PairNode c (uint256_get_backing 0) \<or> self = PairNode c (uint256_get_backing 1)"
  by (auto simp: Optional_new_def Let_def ebind_def split: option.splits pyvalue.splits sum.splits if_splits)

lemma set_keeps_length:
  assumes "class_getitem T = Inr cls" and "Optional_set H cls v self = Some (Inr self')"
  shows "Optional_length H self' = Optional_length H self"
proof (cases "Optional_length H self")
  case (Inl e)
  with assms(2) show ?thesis by (cases v) (simp_all add: Optional_set_def)
next
  case (Inr n)
  then obtain c r where x: "self = PairNode c r" using length_Inr_Pair by blast
  show ?thesis
  proof (cases v)
    case None
    with assms(2) Inr show ?thesis
      by (auto simp: Optional_set_def global_to_gindex_def split: if_splits)
  next
    case (Some inp)
    show ?thesis
    proof (cases "n = 1")
      case True
      with assms(2) Inr Some x have "SubtreeView_set H cls (PairNode c r) 0 inp = Inr self'"
        by (simp add: Optional_set_def)
      then obtain c' where "self' = PairNode c' r"
        using SubtreeView_set_keeps_right [OF assms(1)] by blast
      then show ?thesis by (simp add: x length_Pair)
    next
      case False
      with assms(2) Inr Some show ?thesis
        by (cases "as_elem (element_cls cls) inp") (simp_all add: Optional_set_def global_to_gindex_def)
    qed
  qed
qed

text \<open>
  Claim C5 (length invariant). For every instance of a specialization that is built from
  a value (or from none) and then changed by any sequence of \<^verbatim>\<open>set\<close> calls, \<^verbatim>\<open>length()\<close>
  is 0 or 1.
\<close>

theorem length_invariant:
  assumes "class_getitem T = Inr cls" and "reachable H cls self"
  shows "Optional_length H self = Inr 0 \<or> Optional_length H self = Inr 1"
  using assms(2)
proof (induction rule: reachable.induct)
  case (from_value val self)
  then obtain c where "self = PairNode c (uint256_get_backing 0) \<or> self = PairNode c (uint256_get_backing 1)"
    using new_length_bit by blast
  then show ?case
    by (auto simp: length_Pair uint256_roundtrip_0 uint256_roundtrip_1)
next
  case (after_set self v self')
  then show ?case using set_keeps_length [OF assms(1)] by metis
qed

theorem length_invariant_witness:
  "class_getitem (uint8_cls xor_hash) = Inr (uint8_optional xor_hash)
   \<and> reachable xor_hash (uint8_optional xor_hash) (PairNode (RootNode 9) (RootNode 1))
   \<and> (Optional_length xor_hash (PairNode (RootNode 9) (RootNode 1)) = Inr 0
        \<or> Optional_length xor_hash (PairNode (RootNode 9) (RootNode 1)) = Inr 1)"
  using length_invariant [OF uint8_class_getitem uint8_reachable_9] uint8_class_getitem uint8_reachable_9
  by blast



lemma gindex_path_4: "gindex_path 4 = [False, False]"
  by (simp add: gindex_path.simps [of 4] gindex_path_2)

lemma clearing_branch_body_runs_at_4:
  "clearing_branch (\<lambda>i d. Inr 4) (\<lambda>target. None) H cls (PairNode (PairNode a b) r) = None"
  by (simp add: clearing_branch_def setter_def gindex_path_4 summarize_cond_def)





subsection \<open>Byte length\<close>

lemma value_byte_length_absent:
  "Optional_length H self = Inr 0 \<Longrightarrow> Optional_value_byte_length H cls self = Inr 0"
  by (simp add: Optional_value_byte_length_def)

lemma value_byte_length_fixed:
  "Optional_length H self = Inr n \<Longrightarrow> n \<noteq> 0 \<Longrightarrow> is_fixed_byte_length (element_cls cls) \<Longrightarrow>
     Optional_value_byte_length H cls self = type_byte_length (element_cls cls)"
  by (simp add: Optional_value_byte_length_def)

lemma value_byte_length_variable:
  "Optional_length H self = Inr n \<Longrightarrow> n \<noteq> 0 \<Longrightarrow> \<not> is_fixed_byte_length (element_cls cls) \<Longrightarrow>
     Optional_value_byte_length H cls self = Inl NameError"
  by (simp add: Optional_value_byte_length_def global_el_def)

text \<open>
  Claim C3 (\<^verbatim>\<open>value_byte_length\<close>). The claim's first two cases hold (the lemmas above): 0
  for an absent instance, the fixed byte length for a fixed-length element type. For a
  present value of an element type that is not of fixed byte length the claim says the
  dynamic length of the value is returned; the code evaluates the name \<^verbatim>\<open>el\<close>, which
  nothing binds, and raises \<^verbatim>\<open>NameError\<close>, whatever the class and the contents are.
\<close>

theorem value_byte_length_name_error:
  "Optional_value_byte_length H
     (cls\<lparr>element_cls := (element_cls cls)\<lparr>is_fixed_byte_length := False\<rparr>\<rparr>)
     (PairNode c (uint256_get_backing 1)) = Inl NameError"
  by (simp add: Optional_value_byte_length_def global_el_def length_Pair uint256_roundtrip_1)

subsection \<open>Navigation\<close>

text \<open>
  Claim C8 (presence-flag pseudo-key). The claim says that the key \<^verbatim>\<open>'__is_some__'\<close>
  resolves to the generalized index 3 of the length child. The code returns the value of
  the name \<^verbatim>\<open>RIGHT_GINDEX\<close>, which the module never binds: for every specialization the
  call raises \<^verbatim>\<open>NameError\<close>.
\<close>

theorem is_some_key_name_error:
  "Optional_key_to_static_gindex cls (StrKey ''__is_some__'') = Inl NameError"
  by (simp add: Optional_key_to_static_gindex_def global_RIGHT_GINDEX_def)

text \<open>
  Claim C9 (navigation key validation). For an integer key, \<^verbatim>\<open>navigate_type\<close> succeeds
  exactly for the key 0, where it returns the element type; every key of 1 or more fails
  the limit check, every negative key is refused by the inherited method, both with
  \<^verbatim>\<open>KeyError\<close>.
\<close>

theorem navigate_type_only_zero:
  "class_getitem T = Inr cls \<Longrightarrow>
     Optional_navigate_type cls (IntKey k) = (if k = 0 then Inr T else Inl KeyError)"
  by (simp add: Optional_navigate_type_def MonoSubtreeView_navigate_type_def key_ge_def key_lt_def
      class_getitem_Inr)

theorem navigate_type_only_zero_witness:
  "class_getitem (uint8_cls xor_hash) = Inr (uint8_optional xor_hash)
   \<and> Optional_navigate_type (uint8_optional xor_hash) (IntKey (- 1)) = Inl KeyError"
  using navigate_type_only_zero [OF uint8_class_getitem, of xor_hash "- 1"] uint8_class_getitem
  by simp

end
